theory Spec2Isabelle
  imports Complex_Main "HOL-Library.Word"
begin

unbundle bit_operations_syntax

section \<open>The attitude module of the revolution board (attitude.c)\<close>

text \<open>
  The module runs one task. Each pass of its loop calls an estimator, which reads the
  sensor queues and the shared objects, and writes the attitude, the gyro bias, the
  position, the velocity and the attitude alarm.

  What is not in attitude.c is either an input or a parameter:
  \<^item> the values other tasks publish (sensor objects, settings, flight status, home
    location), the clock, and the outcome of each queue receive are fields of the
    per-iteration record \<open>env\<close>;
  \<^item> macros and functions of headers that are not part of the module
    (\<open>portTICK_RATE_MS\<close>, the sensor masks of insgps.h, \<open>Quaternion2RPY\<close>,
    \<open>LLA2Base\<close>, \<open>RotFrom2Vectors\<close>, \<open>R2Quaternion\<close>) are fields of the record
    \<open>platform\<close>;
  \<^item> the calls into the INS library are logged with their arguments, and what the
    library leaves in the global \<open>Nav\<close> after a call is an input.
\<close>

subsection \<open>Single-precision numbers\<close>

text \<open>
  A C \<open>float\<close> is a finite real, an infinity or NaN. The operations on finite values
  are the exact ones, so rounding and overflow are not part of this development, and
  the two zeros are one. The special values follow IEEE 754: a division by zero gives
  an infinity, or NaN for \<open>0 / 0\<close>; an infinity times zero, and the difference of
  equal infinities, are NaN; NaN propagates; every order comparison with NaN is false
  and \<open>!=\<close> with NaN is true.
\<close>

datatype float = Fin real | PInf | NInf | NaN

instantiation float :: "{uminus, plus, minus, times, inverse, abs, ord}"
begin

fun uminus_float :: "float \<Rightarrow> float" where
  "uminus_float (Fin a) = Fin (- a)"
| "uminus_float PInf = NInf"
| "uminus_float NInf = PInf"
| "uminus_float NaN = NaN"

fun plus_float :: "float \<Rightarrow> float \<Rightarrow> float" where
  "plus_float (Fin a) (Fin b) = Fin (a + b)"
| "plus_float NaN y = NaN"
| "plus_float x NaN = NaN"
| "plus_float PInf NInf = NaN"
| "plus_float NInf PInf = NaN"
| "plus_float PInf y = PInf"
| "plus_float x PInf = PInf"
| "plus_float NInf y = NInf"
| "plus_float x NInf = NInf"

definition minus_float :: "float \<Rightarrow> float \<Rightarrow> float" where
  "minus_float x y = x + (- y)"

fun times_float :: "float \<Rightarrow> float \<Rightarrow> float" where
  "times_float (Fin a) (Fin b) = Fin (a * b)"
| "times_float NaN y = NaN"
| "times_float x NaN = NaN"
| "times_float PInf (Fin b) = (if b = 0 then NaN else if 0 < b then PInf else NInf)"
| "times_float NInf (Fin b) = (if b = 0 then NaN else if 0 < b then NInf else PInf)"
| "times_float (Fin a) PInf = (if a = 0 then NaN else if 0 < a then PInf else NInf)"
| "times_float (Fin a) NInf = (if a = 0 then NaN else if 0 < a then NInf else PInf)"
| "times_float PInf PInf = PInf"
| "times_float PInf NInf = NInf"
| "times_float NInf PInf = NInf"
| "times_float NInf NInf = PInf"

fun divide_float :: "float \<Rightarrow> float \<Rightarrow> float" where
  "divide_float (Fin a) (Fin b) =
     (if b \<noteq> 0 then Fin (a / b) else if a = 0 then NaN else if 0 < a then PInf else NInf)"
| "divide_float NaN y = NaN"
| "divide_float x NaN = NaN"
| "divide_float (Fin a) PInf = Fin 0"
| "divide_float (Fin a) NInf = Fin 0"
| "divide_float PInf (Fin b) = (if 0 \<le> b then PInf else NInf)"
| "divide_float NInf (Fin b) = (if 0 \<le> b then NInf else PInf)"
| "divide_float PInf y = NaN"
| "divide_float NInf y = NaN"

definition inverse_float :: "float \<Rightarrow> float" where
  "inverse_float x = Rings.divide (Fin 1) x"

fun abs_float :: "float \<Rightarrow> float" where
  "abs_float (Fin a) = Fin \<bar>a\<bar>"
| "abs_float PInf = PInf"
| "abs_float NInf = PInf"
| "abs_float NaN = NaN"

fun less_float :: "float \<Rightarrow> float \<Rightarrow> bool" where
  "less_float (Fin a) (Fin b) = (a < b)"
| "less_float NaN y = False"
| "less_float x NaN = False"
| "less_float x NInf = False"
| "less_float PInf y = False"
| "less_float NInf y = True"
| "less_float x PInf = True"

fun less_eq_float :: "float \<Rightarrow> float \<Rightarrow> bool" where
  "less_eq_float (Fin a) (Fin b) = (a \<le> b)"
| "less_eq_float NaN y = False"
| "less_eq_float x NaN = False"
| "less_eq_float NInf y = True"
| "less_eq_float x PInf = True"
| "less_eq_float x NInf = False"
| "less_eq_float PInf y = False"

instance ..

end

text \<open>
  \<open>sqrtf\<close>, \<open>cosf\<close>, \<open>sinf\<close>, the test for a finite value, the operator \<open>!=\<close>
  and the conversion of an integer.
\<close>

fun sqrtf :: "float \<Rightarrow> float" where
  "sqrtf (Fin a) = (if 0 \<le> a then Fin (sqrt a) else NaN)"
| "sqrtf PInf = PInf"
| "sqrtf NInf = NaN"
| "sqrtf NaN = NaN"

fun cosf :: "float \<Rightarrow> float" where
  "cosf (Fin a) = Fin (cos a)"
| "cosf x = NaN"

fun sinf :: "float \<Rightarrow> float" where
  "sinf (Fin a) = Fin (sin a)"
| "sinf x = NaN"

fun is_finite :: "float \<Rightarrow> bool" where
  "is_finite (Fin a) = True"
| "is_finite x = False"

definition float_ne :: "float \<Rightarrow> float \<Rightarrow> bool" where
  "float_ne x y = (x = NaN \<or> y = NaN \<or> x \<noteq> y)"

definition float_of_int :: "int \<Rightarrow> float" where
  "float_of_int i = Fin (real_of_int i)"

subsection \<open>Vectors and the frame library\<close>

type_synonym vec3 = "float \<times> float \<times> float"
type_synonym quat = "float \<times> float \<times> float \<times> float"
type_synonym mat33 = "vec3 \<times> vec3 \<times> vec3"

text \<open>
  Modelled from the spec: CoordinateConversions.c is not among the sources. The spec's
  frame library has a vector cross product, the quaternion to rotation matrix
  conversion and the product of a matrix and a vector; \<open>Quaternion2R\<close> is the matrix
  whose third column attitude.c writes out itself (negated) when it rotates gravity
  into the body frame.
\<close>

definition CrossProduct :: "vec3 \<Rightarrow> vec3 \<Rightarrow> vec3" where
  "CrossProduct v1 v2 =
     (case v1 of (a0, a1, a2) \<Rightarrow> case v2 of (b0, b1, b2) \<Rightarrow>
        (a1 * b2 - b1 * a2, b0 * a2 - a0 * b2, a0 * b1 - b0 * a1))"

definition Quaternion2R :: "quat \<Rightarrow> mat33" where
  "Quaternion2R q =
     (case q of (q0, q1, q2, q3) \<Rightarrow>
        ((q0 * q0 + q1 * q1 - q2 * q2 - q3 * q3, Fin 2 * (q1 * q2 + q0 * q3), Fin 2 * (q1 * q3 - q0 * q2)),
         (Fin 2 * (q1 * q2 - q0 * q3), q0 * q0 - q1 * q1 + q2 * q2 - q3 * q3, Fin 2 * (q2 * q3 + q0 * q1)),
         (Fin 2 * (q1 * q3 + q0 * q2), Fin 2 * (q2 * q3 - q0 * q1), q0 * q0 - q1 * q1 - q2 * q2 + q3 * q3)))"

text \<open>\<open>rot_mult R vec vec_out FALSE\<close>: the product without transposition, the only use.\<close>

definition rot_mult :: "mat33 \<Rightarrow> vec3 \<Rightarrow> vec3" where
  "rot_mult R v =
     (case R of ((r00, r01, r02), (r10, r11, r12), (r20, r21, r22)) \<Rightarrow>
      case v of (v0, v1, v2) \<Rightarrow>
        (r00 * v0 + r01 * v1 + r02 * v2,
         r10 * v0 + r11 * v1 + r12 * v2,
         r20 * v0 + r21 * v1 + r22 * v2))"

subsection \<open>Constants of attitude.c\<close>

definition FAILSAFE_TIMEOUT_MS :: nat where
  "FAILSAFE_TIMEOUT_MS = 10"

text \<open>
  A literal with the suffix \<open>f\<close>, or a constant stored in a \<open>float\<close>, is the
  single-precision number nearest to the decimal the source writes; each is given here
  as the fraction it is.
\<close>

definition F_PI :: float where
  \<comment> \<open>\<open>3.14159265358979323846f\<close>\<close>
  "F_PI = Fin (13176795 / 4194304)"

definition magKi :: float where
  \<comment> \<open>\<open>0.000001f\<close>\<close>
  "magKi = Fin (8796093 / 8796093022208)"

definition magKp :: float where
  \<comment> \<open>\<open>0.0001f\<close>\<close>
  "magKp = Fin (13743895 / 137438953472)"

definition warmup_accelKi :: float where
  \<comment> \<open>\<open>0.9\<close> stored in the float \<open>accelKi\<close>\<close>
  "warmup_accelKi = Fin (7549747 / 8388608)"

definition warmup_yawBiasRate :: float where
  \<comment> \<open>\<open>0.23\<close> stored in the float \<open>yawBiasRate\<close>\<close>
  "warmup_yawBiasRate = Fin (15435039 / 67108864)"

definition short_norm :: float where
  \<comment> \<open>\<open>1.0e-3f\<close>, line 371\<close>
  "short_norm = Fin (8589935 / 8589934592)"

definition gravity :: float where
  \<comment> \<open>\<open>9.81f\<close>, line 450\<close>
  "gravity = Fin (10286531 / 1048576)"

definition dT_max :: float where
  \<comment> \<open>\<open>0.01f\<close>, lines 491 and 492\<close>
  "dT_max = Fin (5368709 / 536870912)"

definition dT_min :: float where
  \<comment> \<open>\<open>0.001f\<close>, lines 493 and 494\<close>
  "dT_min = Fin (8589935 / 8589934592)"

definition bias_limit :: float where
  \<comment> \<open>\<open>0.1f\<close>, line 576\<close>
  "bias_limit = Fin (13421773 / 134217728)"

definition prior_1e_5 :: float where
  \<comment> \<open>\<open>1e-5f\<close>, line 452\<close>
  "prior_1e_5 = Fin (2748779 / 274877906944)"

definition prior_1e_4 :: float where
  \<comment> \<open>\<open>1e-4f\<close>, line 452\<close>
  "prior_1e_4 = Fin (13743895 / 137438953472)"

definition float_of_u32 :: "32 word \<Rightarrow> float" where
  "float_of_u32 w = Fin (real (unat w))"

subsection \<open>Queues, alarm, shared objects\<close>

text \<open>
  Modelled from the spec: the queue primitive belongs to the operating system. A
  receive waits for at most the given number of ticks and reports presence or absence.
  A stream of one iteration is \<open>Some d\<close> when its sample is in the queue \<open>d\<close> ticks
  after the receive is called (\<open>Some 0\<close>: it is there already) and \<open>None\<close> when no
  sample comes.
\<close>

abbreviation pdTRUE :: bool where
  "pdTRUE \<equiv> True"

definition xQueueReceive :: "nat option \<Rightarrow> nat \<Rightarrow> bool" where
  "xQueueReceive queue ticks = (case queue of None \<Rightarrow> False | Some d \<Rightarrow> d \<le> ticks)"

datatype alarm = ALARM_CLEAR | ALARM_WARNING

datatype armed = DISARMED | ARMING | ARMED

record AttitudeActualData =
  att_q :: quat
  att_rpy :: vec3

record NavStruct =
  Pos :: vec3
  Vel :: vec3
  nav_q :: quat
  gyro_bias :: vec3

datatype ins_call =
    CALL_INSGPSInit
  | CALL_INSSetState vec3 vec3 quat vec3 vec3
  | CALL_INSSetGyroBias vec3
  | CALL_INSResetP "float list"
  | CALL_INSStatePrediction vec3 vec3 float
  | CALL_INSCovariancePrediction float
  | CALL_INSCorrection vec3 vec3 vec3 float "16 word"

record platform =
  portTICK_RATE_MS :: nat
  MAG_SENSORS :: "16 word"
  BARO_SENSOR :: "16 word"
  HORIZ_SENSORS :: "16 word"
  VERT_SENSORS :: "16 word"
  Quaternion2RPY :: "quat \<Rightarrow> vec3"
  LLA2Base :: "vec3 \<Rightarrow> vec3 \<Rightarrow> mat33 \<Rightarrow> vec3"
  RotFrom2Vectors :: "vec3 \<Rightarrow> vec3 \<Rightarrow> vec3 \<Rightarrow> vec3 \<Rightarrow> mat33"
  R2Quaternion :: "mat33 \<Rightarrow> quat"

text \<open>
  One iteration's inputs. \<open>xTaskGetTickCount\<close> is read twice on line 247; both
  reads are taken to give the same tick. \<open>stack_mag_updated\<close>, \<open>stack_baro_updated\<close> and
  \<open>stack_gps_updated\<close> are what the automatic variables \<open>mag_updated\<close>,
  \<open>baro_updated\<close> and \<open>gps_updated\<close> of \<open>updateAttitudeINSGPS\<close> hold when they are
  declared: the source declares them without a value. \<open>Nav_predicted\<close> and
  \<open>Nav_corrected\<close> are the contents of the global \<open>Nav\<close> after
  \<open>INSStatePrediction\<close> and after \<open>INSCorrection\<close> have run.
\<close>

record env =
  gyroQueue :: "nat option"
  accelQueue :: "nat option"
  magQueue :: "nat option"
  baroQueue :: "nat option"
  gpsQueue :: "nat option"
  xTaskGetTickCount :: nat
  FlightStatus_Armed :: armed
  Gyros :: vec3
  Accels :: vec3
  Magnetometer :: vec3
  BaroAltitude :: float
  HomeLocation_Be :: vec3
  HomeLocation_ECEF :: "int \<times> int \<times> int"
  HomeLocation_RNE :: mat33
  GPS_Latitude :: int
  GPS_Longitude :: int
  GPS_Altitude :: float
  GPS_GeoidSeparation :: float
  GPS_Groundspeed :: float
  GPS_Heading :: float
  AttitudeSettings_AccelKi :: float
  AttitudeSettings_AccelKp :: float
  AttitudeSettings_YawBiasRate :: float
  PIOS_DELAY_DiffuS :: "32 word"
  PIOS_DELAY_GetRaw :: "32 word"
  stack_mag_updated :: bool
  stack_baro_updated :: bool
  stack_gps_updated :: bool
  Nav_predicted :: NavStruct
  Nav_corrected :: NavStruct

text \<open>
  The module's variables, the objects it writes and the statics of its functions
  (\<open>init\<close>, \<open>timeval\<close> of the complementary filter; \<open>inited\<close>, \<open>ins_last_time\<close> of
  the INS/GPS estimator). \<open>ins_calls\<close> is the log of the calls into the INS library,
  oldest first.
\<close>

record state =
  alarm_attitude :: alarm
  AttitudeActual :: AttitudeActualData
  GyrosBias :: vec3
  PositionActual :: vec3
  VelocityActual :: vec3
  accelKi :: float
  accelKp :: float
  yawBiasRate :: float
  zero_during_arming :: bool
  accel_mag :: float
  qmag :: float
  mag_err :: vec3
  init :: "8 word"
  timeval :: "32 word"
  inited :: bool
  ins_last_time :: "32 word"
  Nav :: NavStruct
  ins_calls :: "ins_call list"

definition AlarmsSet :: "alarm \<Rightarrow> state \<Rightarrow> state" where
  "AlarmsSet severity s = s\<lparr>alarm_attitude := severity\<rparr>"

definition AlarmsClear :: "state \<Rightarrow> state" where
  "AlarmsClear s = s\<lparr>alarm_attitude := ALARM_CLEAR\<rparr>"

subsection \<open>The complementary filter\<close>

text \<open>Lines 244 to 263: the gains of this iteration.\<close>

definition select_gains :: "bool \<Rightarrow> env \<Rightarrow> state \<Rightarrow> state" where
  "select_gains first_run e s =
     (let s1 = (if first_run then s\<lparr>init := 0\<rparr> else s)
      in if (init s1 = 0 \<and> xTaskGetTickCount e < 7000) \<and> xTaskGetTickCount e > 1000
         then s1\<lparr>accelKp := Fin 1, accelKi := warmup_accelKi, yawBiasRate := warmup_yawBiasRate\<rparr>
         else if zero_during_arming s1 \<and> FlightStatus_Armed e = ARMING
         then s1\<lparr>accelKp := Fin 1, accelKi := warmup_accelKi, yawBiasRate := warmup_yawBiasRate,
                 init := 0\<rparr>
         else if init s1 = 0
         then s1\<lparr>accelKi := AttitudeSettings_AccelKi e,
                 accelKp := AttitudeSettings_AccelKp e,
                 yawBiasRate := AttitudeSettings_YawBiasRate e,
                 init := 1\<rparr>
         else s1)"

text \<open>Lines 283 to 294: gravity in the body frame crossed with the accelerometer.\<close>

definition gravity_error :: "quat \<Rightarrow> vec3 \<Rightarrow> float \<times> vec3" where
  "gravity_error q accels =
     (case q of (q0, q1, q2, q3) \<Rightarrow> case accels of (ax, ay, az) \<Rightarrow>
        let grot = (- (Fin 2 * (q1 * q3 - q0 * q2)),
                    - (Fin 2 * (q2 * q3 + q0 * q1)),
                    - (q0 * q0 - q1 * q1 - q2 * q2 + q3 * q3));
            amag = sqrtf (ax * ax + ay * ay + az * az)
        in case CrossProduct accels grot of (e0, e1, e2) \<Rightarrow>
             (amag, (e0 / amag, e1 / amag, e2 / amag)))"

text \<open>Lines 298 to 323: the body of the first branch of the magnetometer test.\<close>

definition magnetic_error :: "quat \<Rightarrow> vec3 \<Rightarrow> vec3 \<Rightarrow> vec3" where
  "magnetic_error q mag Be =
     (case rot_mult (Quaternion2R q) Be of (b0, b1, b2) \<Rightarrow>
      case mag of (mx, my, mz) \<Rightarrow>
        let mag_len = sqrtf (mx * mx + my * my + mz * mz);
            bmag = sqrtf (b0 * b0 + b1 * b1 + b2 * b2)
        in if bmag < Fin 1 \<or> mag_len < Fin 1 then (Fin 0, Fin 0, Fin 0)
           else CrossProduct (mx / mag_len, my / mag_len, mz / mag_len)
                             (b0 / bmag, b1 / bmag, b2 / bmag))"

text \<open>Lines 336 to 339: the proportional correction of the rates.\<close>

definition corrected_rates :: "vec3 \<Rightarrow> vec3 \<Rightarrow> vec3 \<Rightarrow> float \<Rightarrow> float \<Rightarrow> vec3" where
  "corrected_rates gyros accel_err merr Kp dT =
     (case gyros of (gx, gy, gz) \<Rightarrow> case accel_err of (ae0, ae1, ae2) \<Rightarrow>
      case merr of (me0, me1, me2) \<Rightarrow>
        (gx + ae0 * Kp / dT,
         gy + ae1 * Kp / dT,
         gz + ae2 * Kp / dT + me2 * magKp / dT))"

text \<open>Lines 341 to 353: one time step of the quaternion.\<close>

definition quaternion_step :: "quat \<Rightarrow> vec3 \<Rightarrow> float \<Rightarrow> quat" where
  "quaternion_step q gyros dT =
     (case q of (q0, q1, q2, q3) \<Rightarrow> case gyros of (gx, gy, gz) \<Rightarrow>
        let qdot0 = (- q1 * gx - q2 * gy - q3 * gz) * dT * F_PI / Fin 180 / Fin 2;
            qdot1 = (q0 * gx - q3 * gy + q2 * gz) * dT * F_PI / Fin 180 / Fin 2;
            qdot2 = (q3 * gx + q0 * gy - q1 * gz) * dT * F_PI / Fin 180 / Fin 2;
            qdot3 = (- q2 * gx + q1 * gy + q0 * gz) * dT * F_PI / Fin 180 / Fin 2
        in (q0 + qdot0, q1 + qdot1, q2 + qdot2, q3 + qdot3))"

text \<open>
  Lines 355 to 376: the sign, the norm, and the reset of a quaternion that is too short
  or whose norm is NaN. The first component of the result is the global \<open>qmag\<close>.
\<close>

definition renormalise :: "quat \<Rightarrow> float \<times> quat" where
  "renormalise p =
     (case p of (p0, p1, p2, p3) \<Rightarrow>
        let (r0, r1, r2, r3) = (if p0 < Fin 0 then (- p0, - p1, - p2, - p3) else (p0, p1, p2, p3));
            m = sqrtf (r0 * r0 + r1 * r1 + r2 * r2 + r3 * r3)
        in (m, if \<bar>m\<bar> < short_norm \<or> float_ne m m then (Fin 1, Fin 0, Fin 0, Fin 0)
               else (r0 / m, r1 / m, r2 / m, r3 / m)))"

definition integrate_quaternion :: "quat \<Rightarrow> vec3 \<Rightarrow> float \<Rightarrow> float \<times> quat" where
  "integrate_quaternion q gyros dT = renormalise (quaternion_step q gyros dT)"

text \<open>
  Lines 219 to 396. The receives from the barometer and GPS queues on lines 385 to 391
  ignore their outcome and change nothing here.
\<close>

definition updateAttitudeComplimentary :: "platform \<Rightarrow> bool \<Rightarrow> env \<Rightarrow> state \<Rightarrow> int \<times> state" where
  "updateAttitudeComplimentary P first_run e s =
     (if xQueueReceive (gyroQueue e) (FAILSAFE_TIMEOUT_MS div portTICK_RATE_MS P) \<noteq> pdTRUE
      then (- 1, AlarmsSet ALARM_WARNING s)
      else if xQueueReceive (accelQueue e) 0 \<noteq> pdTRUE
      then (- 1, AlarmsSet ALARM_WARNING s)
      else
        let s1 = select_gains first_run e s;
            dT = float_of_u32 (PIOS_DELAY_DiffuS e) / Fin 1000000;
            s2 = s1\<lparr>timeval := PIOS_DELAY_GetRaw e\<rparr>;
            q = att_q (AttitudeActual s2);
            (amag, accel_err) = gravity_error q (Accels e);
            s3 = s2\<lparr>accel_mag := amag\<rparr>;
            s4 = (if xQueueReceive (magQueue e) 0 \<noteq> pdTRUE
                  then s3\<lparr>mag_err := magnetic_error q (Magnetometer e) (HomeLocation_Be e)\<rparr>
                  else s3\<lparr>mag_err := (Fin 0, Fin 0, Fin 0)\<rparr>);
            (ae0, ae1, ae2) = accel_err;
            (me0, me1, me2) = mag_err s4;
            (bx, by, bz) = GyrosBias s4;
            s5 = s4\<lparr>GyrosBias := (bx + ae0 * accelKi s4, by + ae1 * accelKi s4, bz + me2 * magKi)\<rparr>;
            gyrosData = corrected_rates (Gyros e) accel_err (mag_err s5) (accelKp s5) dT;
            (m, q') = integrate_quaternion q gyrosData dT;
            s6 = s5\<lparr>qmag := m\<rparr>;
            s7 = s6\<lparr>AttitudeActual := \<lparr>att_q = q', att_rpy = Quaternion2RPY P q'\<rparr>\<rparr>
        in (0, AlarmsClear s7))"

subsection \<open>The INS library, as attitude.c uses it\<close>

text \<open>
  Modelled from the spec: insgps is not among the sources. Each function appends its
  call to the log. \<open>INSSetState\<close> creates the navigation state from position,
  velocity, attitude and gyro bias, and \<open>INSSetGyroBias\<close> overwrites its gyro bias
  (the spec's forcible reset of the bias state). What the prediction and the correction
  compute is not described: \<open>Nav\<close> afterwards is the input \<open>Nav_predicted\<close>,
  respectively \<open>Nav_corrected\<close>.
\<close>

definition INSGPSInit :: "state \<Rightarrow> state" where
  "INSGPSInit s = s\<lparr>ins_calls := ins_calls s @ [CALL_INSGPSInit]\<rparr>"

definition INSSetState :: "vec3 \<Rightarrow> vec3 \<Rightarrow> quat \<Rightarrow> vec3 \<Rightarrow> vec3 \<Rightarrow> state \<Rightarrow> state" where
  "INSSetState pos vel q gbias abias s =
     s\<lparr>ins_calls := ins_calls s @ [CALL_INSSetState pos vel q gbias abias],
       Nav := \<lparr>Pos = pos, Vel = vel, nav_q = q, gyro_bias = gbias\<rparr>\<rparr>"

definition INSSetGyroBias :: "vec3 \<Rightarrow> state \<Rightarrow> state" where
  "INSSetGyroBias b s =
     s\<lparr>ins_calls := ins_calls s @ [CALL_INSSetGyroBias b],
       Nav := (Nav s)\<lparr>gyro_bias := b\<rparr>\<rparr>"

definition INSResetP :: "float list \<Rightarrow> state \<Rightarrow> state" where
  "INSResetP Pdiag s = s\<lparr>ins_calls := ins_calls s @ [CALL_INSResetP Pdiag]\<rparr>"

definition INSStatePrediction :: "vec3 \<Rightarrow> vec3 \<Rightarrow> float \<Rightarrow> env \<Rightarrow> state \<Rightarrow> state" where
  "INSStatePrediction gyros accels dT e s =
     s\<lparr>ins_calls := ins_calls s @ [CALL_INSStatePrediction gyros accels dT],
       Nav := Nav_predicted e\<rparr>"

definition INSCovariancePrediction :: "float \<Rightarrow> state \<Rightarrow> state" where
  "INSCovariancePrediction dT s =
     s\<lparr>ins_calls := ins_calls s @ [CALL_INSCovariancePrediction dT]\<rparr>"

definition INSCorrection :: "vec3 \<Rightarrow> vec3 \<Rightarrow> vec3 \<Rightarrow> float \<Rightarrow> 16 word \<Rightarrow> env \<Rightarrow> state \<Rightarrow> state" where
  "INSCorrection mag NED vel baro sensors e s =
     s\<lparr>ins_calls := ins_calls s @ [CALL_INSCorrection mag NED vel baro sensors],
       Nav := Nav_corrected e\<rparr>"

subsection \<open>The INS/GPS estimator\<close>

text \<open>Lines 463 to 471 and 540 to 551: velocity and position from the GPS object.\<close>

definition gps_velocity :: "env \<Rightarrow> vec3" where
  "gps_velocity e =
     (GPS_Groundspeed e * cosf (GPS_Heading e * F_PI / Fin 180),
      GPS_Groundspeed e * sinf (GPS_Heading e * F_PI / Fin 180),
      Fin 0)"

definition gps_NED :: "platform \<Rightarrow> env \<Rightarrow> vec3" where
  "gps_NED P e =
     (let LLA = (float_of_int (GPS_Latitude e) / Fin 10000000,
                 float_of_int (GPS_Longitude e) / Fin 10000000,
                 GPS_GeoidSeparation e + GPS_Altitude e);
          ECEF = (case HomeLocation_ECEF e of (x, y, z) \<Rightarrow>
                    (float_of_int x / Fin 100, float_of_int y / Fin 100, float_of_int z / Fin 100))
      in LLA2Base P LLA ECEF (HomeLocation_RNE e))"

text \<open>Lines 447 to 480: the first branch taken once all three flags are set.\<close>

definition ins_initialise :: "platform \<Rightarrow> env \<Rightarrow> state \<Rightarrow> state" where
  "ins_initialise P e s =
     (let s1 = s\<lparr>inited := True\<rparr>;
          ge = (Fin 0, Fin 0, - gravity);
          zeros = (Fin 0, Fin 0, Fin 0);
          Pdiag = [Fin 25, Fin 25, Fin 25, Fin 5, Fin 5, Fin 5,
                   prior_1e_5, prior_1e_5, prior_1e_5, prior_1e_5, prior_1e_5, prior_1e_5,
                   prior_1e_5, prior_1e_4, prior_1e_4, prior_1e_4];
          s2 = INSGPSInit s1;
          vel = gps_velocity e;
          NED = gps_NED P e;
          Rbe = RotFrom2Vectors P (Accels e) ge (Magnetometer e) (HomeLocation_Be e);
          q = R2Quaternion P Rbe;
          s3 = INSSetState NED vel q (Gyros e) zeros s2;
          s4 = INSSetGyroBias (Gyros e) s3;
          s5 = INSResetP Pdiag s4
      in s5\<lparr>ins_last_time := PIOS_DELAY_GetRaw e\<rparr>)"

text \<open>Lines 491 to 494.\<close>

definition clamp_dT :: "float \<Rightarrow> float" where
  "clamp_dT dT = (if dT > dT_max then dT_max else if dT \<le> dT_min then dT_min else dT)"

text \<open>Lines 484, 526 to 529 and 534 to 536: the mask handed to the correction.\<close>

definition sensor_mask :: "platform \<Rightarrow> bool \<Rightarrow> bool \<Rightarrow> bool \<Rightarrow> 16 word" where
  "sensor_mask P mag_updated baro_updated gps_updated =
     (let sensors0 = 0;
          sensors1 = (if mag_updated then sensors0 OR MAG_SENSORS P else sensors0);
          sensors2 = (if baro_updated then sensors1 OR BARO_SENSOR P else sensors1)
      in if gps_updated then HORIZ_SENSORS P OR VERT_SENSORS P else sensors2)"

text \<open>Lines 576 to 579.\<close>

definition bias_guard :: "state \<Rightarrow> state" where
  "bias_guard s =
     (case gyro_bias (Nav s) of (b0, b1, b2) \<Rightarrow>
        if \<bar>b0\<bar> > bias_limit \<or> \<bar>b1\<bar> > bias_limit \<or> \<bar>b2\<bar> > bias_limit
        then INSSetGyroBias (Fin 0, Fin 0, Fin 0) s
        else s)"

text \<open>Lines 483 to 581: prediction, publication, correction, guard.\<close>

definition ins_update :: "platform \<Rightarrow> env \<Rightarrow> bool \<Rightarrow> bool \<Rightarrow> bool \<Rightarrow> state \<Rightarrow> state" where
  "ins_update P e mag_updated baro_updated gps_updated s =
     (let dT = clamp_dT (float_of_u32 (PIOS_DELAY_DiffuS e) / Fin 1000000);
          s1 = s\<lparr>ins_last_time := PIOS_DELAY_GetRaw e\<rparr>;
          (bx, by, bz) = GyrosBias s1;
          (gx, gy, gz) = Gyros e;
          gyros = ((gx + bx) * F_PI / Fin 180, (gy + by) * F_PI / Fin 180,
                   (gz + bz) * F_PI / Fin 180);
          s2 = INSStatePrediction gyros (Accels e) dT e s1;
          s3 = s2\<lparr>AttitudeActual :=
                  \<lparr>att_q = nav_q (Nav s2), att_rpy = Quaternion2RPY P (nav_q (Nav s2))\<rparr>\<rparr>;
          s4 = s3\<lparr>GyrosBias := gyro_bias (Nav s3)\<rparr>;
          s5 = INSCovariancePrediction dT s4;
          sensors = sensor_mask P mag_updated baro_updated gps_updated;
          vel = (if gps_updated then gps_velocity e else (Fin 0, Fin 0, Fin 0));
          NED = (if gps_updated then gps_NED P e else (Fin 0, Fin 0, Fin 0));
          s6 = INSCorrection (Magnetometer e) NED vel (BaroAltitude e) sensors e s5;
          s7 = s6\<lparr>PositionActual := Pos (Nav s6)\<rparr>;
          s8 = s7\<lparr>VelocityActual := Vel (Nav s7)\<rparr>
      in bias_guard s8)"

text \<open>
  Lines 430 to 441: the three flags. \<open>mag_updated\<close> and \<open>baro_updated\<close> are set to 0
  only when the filter is initialised, \<open>gps_updated\<close> never; each is then or-ed with
  the outcome of this iteration's receive.
\<close>

definition mag_updated_flag :: "platform \<Rightarrow> env \<Rightarrow> state \<Rightarrow> bool" where
  "mag_updated_flag P e s =
     ((if inited s then False else stack_mag_updated e)
      \<or> xQueueReceive (magQueue e) (0 div portTICK_RATE_MS P) = pdTRUE)"

definition baro_updated_flag :: "platform \<Rightarrow> env \<Rightarrow> state \<Rightarrow> bool" where
  "baro_updated_flag P e s =
     ((if inited s then False else stack_baro_updated e)
      \<or> xQueueReceive (baroQueue e) (0 div portTICK_RATE_MS P) = pdTRUE)"

definition gps_updated_flag :: "platform \<Rightarrow> env \<Rightarrow> state \<Rightarrow> bool" where
  "gps_updated_flag P e s =
     (stack_gps_updated e
      \<or> xQueueReceive (gpsQueue e) (0 div portTICK_RATE_MS P) = pdTRUE)"

text \<open>Lines 401 to 582.\<close>

definition updateAttitudeINSGPS :: "platform \<Rightarrow> bool \<Rightarrow> env \<Rightarrow> state \<Rightarrow> int \<times> state" where
  "updateAttitudeINSGPS P first_run e s =
     (let s0 = (if first_run then s\<lparr>inited := False\<rparr> else s)
      in if xQueueReceive (gyroQueue e) (10 div portTICK_RATE_MS P) \<noteq> pdTRUE
            \<or> xQueueReceive (accelQueue e) (10 div portTICK_RATE_MS P) \<noteq> pdTRUE
         then (- 1, AlarmsSet ALARM_WARNING s0)
         else
           let mag_updated = mag_updated_flag P e s0;
               baro_updated = baro_updated_flag P e s0;
               gps_updated = gps_updated_flag P e s0
           in if \<not> inited s0 \<and> (\<not> mag_updated \<or> \<not> baro_updated \<or> \<not> gps_updated)
              then (- 1, s0)
              else if \<not> inited s0
              then (0, ins_initialise P e s0)
              else (0, ins_update P e mag_updated baro_updated gps_updated s0))"

subsection \<open>The task loop\<close>

text \<open>
  Lines 196 to 209. The loop never ends; a run is given by the inputs of its passes,
  one \<open>env\<close> per pass, and the function returns which estimator each pass called
  together with the state after the last pass.
\<close>

datatype estimator = COMPLIMENTARY | INSGPS

fun AttitudeTask_loop :: "platform \<Rightarrow> bool \<Rightarrow> env list \<Rightarrow> state \<Rightarrow> estimator list \<times> state" where
  "AttitudeTask_loop P first_run [] s = ([], s)"
| "AttitudeTask_loop P first_run (e # es) s =
     (let (called, s') =
            (if 1 \<noteq> (0 :: int)
             then (COMPLIMENTARY, snd (updateAttitudeComplimentary P first_run e s))
             else (INSGPS, snd (updateAttitudeINSGPS P first_run e s)));
          first_run' = (if first_run then False else first_run);
          (log, s'') = AttitudeTask_loop P first_run' es s'
      in (called # log, s''))"

subsection \<open>Reading the call log\<close>

text \<open>
  The masks of the correction calls, the arguments of the calls that set the gyro bias
  and the time steps of the prediction calls.
\<close>

fun correction_masks :: "ins_call list \<Rightarrow> 16 word list" where
  "correction_masks [] = []"
| "correction_masks (CALL_INSCorrection mag NED vel baro sensors # cs) =
     sensors # correction_masks cs"
| "correction_masks (c # cs) = correction_masks cs"

fun bias_resets :: "ins_call list \<Rightarrow> vec3 list" where
  "bias_resets [] = []"
| "bias_resets (CALL_INSSetGyroBias b # cs) = b # bias_resets cs"
| "bias_resets (c # cs) = bias_resets cs"


subsection \<open>Inputs used in the examples\<close>

text \<open>
  A platform with a tick of one millisecond and four disjoint mask values; the
  functions of the frame library that attitude.c only passes on return fixed values.
\<close>

definition bench_platform :: platform where
  "bench_platform =
     \<lparr>portTICK_RATE_MS = 1,
      MAG_SENSORS = 0x1C0, BARO_SENSOR = 0x200, HORIZ_SENSORS = 0x018, VERT_SENSORS = 0x020,
      Quaternion2RPY = (\<lambda>q. (Fin 0, Fin 0, Fin 0)),
      LLA2Base = (\<lambda>LLA ECEF RNE. (Fin 0, Fin 0, Fin 0)),
      RotFrom2Vectors = (\<lambda>v1 v2 v3 v4.
         ((Fin 1, Fin 0, Fin 0), (Fin 0, Fin 1, Fin 0), (Fin 0, Fin 0, Fin 1))),
      R2Quaternion = (\<lambda>R. (Fin 1, Fin 0, Fin 0, Fin 0))\<rparr>"

definition bench_nav :: NavStruct where
  "bench_nav =
     \<lparr>Pos = (Fin 0, Fin 0, Fin 0), Vel = (Fin 0, Fin 0, Fin 0),
      nav_q = (Fin 1, Fin 0, Fin 0, Fin 0), gyro_bias = (Fin 0, Fin 0, Fin 0)\<rparr>"

text \<open>
  The state \<open>AttitudeInitialize\<close> leaves (identity attitude, zero bias), with the
  alarm cleared as \<open>AttitudeTask\<close> does before its loop.
\<close>

definition bench_state :: state where
  "bench_state =
     \<lparr>alarm_attitude = ALARM_CLEAR,
      AttitudeActual = \<lparr>att_q = (Fin 1, Fin 0, Fin 0, Fin 0), att_rpy = (Fin 0, Fin 0, Fin 0)\<rparr>,
      GyrosBias = (Fin 0, Fin 0, Fin 0),
      PositionActual = (Fin 0, Fin 0, Fin 0),
      VelocityActual = (Fin 0, Fin 0, Fin 0),
      accelKi = Fin 0, accelKp = Fin 0, yawBiasRate = Fin 0,
      zero_during_arming = False,
      accel_mag = Fin 0, qmag = Fin 0, mag_err = (Fin 0, Fin 0, Fin 0),
      init = 0, timeval = 0,
      inited = False, ins_last_time = 0,
      Nav = bench_nav,
      ins_calls = []\<rparr>"

text \<open>
  A level, stationary vehicle ten milliseconds after the previous iteration: every
  stream has a sample waiting, the magnetometer reads the reference field.
\<close>

definition bench_env :: env where
  "bench_env =
     \<lparr>gyroQueue = Some 0, accelQueue = Some 0, magQueue = Some 0,
      baroQueue = Some 0, gpsQueue = Some 0,
      xTaskGetTickCount = 8000,
      FlightStatus_Armed = DISARMED,
      Gyros = (Fin 0, Fin 0, Fin 0),
      Accels = (Fin 0, Fin 0, - gravity),
      Magnetometer = (Fin 1, Fin 0, Fin 0),
      BaroAltitude = Fin 0,
      HomeLocation_Be = (Fin 1, Fin 0, Fin 0),
      HomeLocation_ECEF = (0, 0, 0),
      HomeLocation_RNE = ((Fin 1, Fin 0, Fin 0), (Fin 0, Fin 1, Fin 0), (Fin 0, Fin 0, Fin 1)),
      GPS_Latitude = 0, GPS_Longitude = 0, GPS_Altitude = Fin 0, GPS_GeoidSeparation = Fin 0,
      GPS_Groundspeed = Fin 0, GPS_Heading = Fin 0,
      AttitudeSettings_AccelKi = Fin (1 / 8192), AttitudeSettings_AccelKp = Fin (1 / 16),
      AttitudeSettings_YawBiasRate = Fin (1 / 1048576),
      PIOS_DELAY_DiffuS = 10000, PIOS_DELAY_GetRaw = 0,
      stack_mag_updated = False, stack_baro_updated = False, stack_gps_updated = False,
      Nav_predicted = bench_nav, Nav_corrected = bench_nav\<rparr>"

section \<open>Properties\<close>

subsection \<open>Helper facts\<close>

lemma minus_Fin [simp]: "Fin a - Fin b = Fin (a - b)"
  by (simp add: minus_float_def)

lemma xQueueReceive_zero: "xQueueReceive q 0 = (q = Some 0)"
  by (cases q) (auto simp: xQueueReceive_def)

lemma select_gains_frame:
  "AttitudeActual (select_gains fr e s) = AttitudeActual s"
  "alarm_attitude (select_gains fr e s) = alarm_attitude s"
  "GyrosBias (select_gains fr e s) = GyrosBias s"
  "inited (select_gains fr e s) = inited s"
  "ins_last_time (select_gains fr e s) = ins_last_time s"
  "Nav (select_gains fr e s) = Nav s"
  "ins_calls (select_gains fr e s) = ins_calls s"
  "PositionActual (select_gains fr e s) = PositionActual s"
  "VelocityActual (select_gains fr e s) = VelocityActual s"
  by (simp_all add: select_gains_def Let_def)

lemma complimentary_fail:
  "\<not> (xQueueReceive (gyroQueue e) (FAILSAFE_TIMEOUT_MS div portTICK_RATE_MS P) \<and> accelQueue e = Some 0)
   \<Longrightarrow> updateAttitudeComplimentary P fr e s = (- 1, s\<lparr>alarm_attitude := ALARM_WARNING\<rparr>)"
  by (auto simp: updateAttitudeComplimentary_def xQueueReceive_zero AlarmsSet_def)

lemma complimentary_ok_rc:
  "xQueueReceive (gyroQueue e) (FAILSAFE_TIMEOUT_MS div portTICK_RATE_MS P) \<Longrightarrow> accelQueue e = Some 0
   \<Longrightarrow> fst (updateAttitudeComplimentary P fr e s) = 0"
  by (simp add: updateAttitudeComplimentary_def xQueueReceive_zero Let_def split: prod.splits)

lemma complimentary_ok_alarm:
  "xQueueReceive (gyroQueue e) (FAILSAFE_TIMEOUT_MS div portTICK_RATE_MS P) \<Longrightarrow> accelQueue e = Some 0
   \<Longrightarrow> alarm_attitude (snd (updateAttitudeComplimentary P fr e s)) = ALARM_CLEAR"
  by (simp add: updateAttitudeComplimentary_def xQueueReceive_zero Let_def AlarmsClear_def split: prod.splits)

lemma complimentary_mag_err:
  "xQueueReceive (gyroQueue e) (FAILSAFE_TIMEOUT_MS div portTICK_RATE_MS P) \<Longrightarrow> accelQueue e = Some 0
   \<Longrightarrow> mag_err (snd (updateAttitudeComplimentary P fr e s)) =
        (if xQueueReceive (magQueue e) 0 \<noteq> pdTRUE
         then magnetic_error (att_q (AttitudeActual s)) (Magnetometer e) (HomeLocation_Be e)
         else (Fin 0, Fin 0, Fin 0))"
  by (simp add: updateAttitudeComplimentary_def xQueueReceive_zero Let_def AlarmsClear_def select_gains_frame split: prod.splits)

lemma complimentary_ins_frame:
  "inited (snd (updateAttitudeComplimentary P fr e s)) = inited s"
  "ins_last_time (snd (updateAttitudeComplimentary P fr e s)) = ins_last_time s"
  "Nav (snd (updateAttitudeComplimentary P fr e s)) = Nav s"
  "ins_calls (snd (updateAttitudeComplimentary P fr e s)) = ins_calls s"
  "PositionActual (snd (updateAttitudeComplimentary P fr e s)) = PositionActual s"
  "VelocityActual (snd (updateAttitudeComplimentary P fr e s)) = VelocityActual s"
  by (simp_all add: updateAttitudeComplimentary_def Let_def AlarmsClear_def AlarmsSet_def select_gains_frame split: prod.splits)


lemma AttitudeTask_loop_Cons:
  "AttitudeTask_loop P fr (e # es) s =
     (COMPLIMENTARY # fst (AttitudeTask_loop P False es (snd (updateAttitudeComplimentary P fr e s))),
      snd (AttitudeTask_loop P False es (snd (updateAttitudeComplimentary P fr e s))))"
  by (cases fr) (simp_all add: Let_def split: prod.splits)

declare AttitudeTask_loop.simps(2) [simp del]

lemma loop_failing_keeps:
  "\<forall>e \<in> set es. \<not> (xQueueReceive (gyroQueue e) (FAILSAFE_TIMEOUT_MS div portTICK_RATE_MS P) \<and> accelQueue e = Some 0)
   \<Longrightarrow> snd (AttitudeTask_loop P fr es (s\<lparr>alarm_attitude := ALARM_WARNING\<rparr>))
       = s\<lparr>alarm_attitude := ALARM_WARNING\<rparr>"
  by (induction es arbitrary: fr) (simp_all add: AttitudeTask_loop_Cons complimentary_fail)

lemma loop_all_failing:
  "\<forall>e \<in> set es. \<not> (xQueueReceive (gyroQueue e) (FAILSAFE_TIMEOUT_MS div portTICK_RATE_MS P) \<and> accelQueue e = Some 0)
   \<Longrightarrow> es \<noteq> [] \<Longrightarrow>
   snd (AttitudeTask_loop P fr es s) = s\<lparr>alarm_attitude := ALARM_WARNING\<rparr>"
  by (cases es) (simp_all add: AttitudeTask_loop_Cons complimentary_fail loop_failing_keeps)

subsection \<open>Mandatory streams and the alarm\<close>

text \<open>
  Claim C3, as the code has it. An iteration of the complementary filter waits up to
  \<open>FAILSAFE_TIMEOUT_MS\<close> (10 ms, in ticks) for the gyro queue and then polls the
  accelerometer queue with a timeout of 0. The iteration returns -1 exactly when the
  gyro sample does not come in time or the accelerometer sample is not already there;
  it then changes nothing but the alarm, which reads WARNING, so the published attitude
  is the previous one. Any other iteration returns 0 and leaves the alarm cleared. Over
  a run of failing iterations the state stays what it was, with the alarm at WARNING.
\<close>

theorem complimentary_failsafe:
  "(fst (updateAttitudeComplimentary P fr e s) = - 1 \<longleftrightarrow>
      \<not> (xQueueReceive (gyroQueue e) (FAILSAFE_TIMEOUT_MS div portTICK_RATE_MS P) \<and> accelQueue e = Some 0))
   \<and> (fst (updateAttitudeComplimentary P fr e s) = - 1 \<longrightarrow>
        snd (updateAttitudeComplimentary P fr e s) = s\<lparr>alarm_attitude := ALARM_WARNING\<rparr>)
   \<and> (fst (updateAttitudeComplimentary P fr e s) \<noteq> - 1 \<longrightarrow>
        fst (updateAttitudeComplimentary P fr e s) = 0
        \<and> alarm_attitude (snd (updateAttitudeComplimentary P fr e s)) = ALARM_CLEAR)
   \<and> ((\<forall>e \<in> set es. \<not> (xQueueReceive (gyroQueue e) (FAILSAFE_TIMEOUT_MS div portTICK_RATE_MS P)
                            \<and> accelQueue e = Some 0)) \<and> es \<noteq> [] \<longrightarrow>
        snd (AttitudeTask_loop P fr es s) = s\<lparr>alarm_attitude := ALARM_WARNING\<rparr>)"
proof (cases "xQueueReceive (gyroQueue e) (FAILSAFE_TIMEOUT_MS div portTICK_RATE_MS P) \<and> accelQueue e = Some 0")
  case True
  then show ?thesis
    using complimentary_ok_rc [of e P fr s] complimentary_ok_alarm [of e P fr s]
          loop_all_failing [of es P fr s]
    by simp
next
  case False
  then show ?thesis
    using complimentary_fail [of e P fr s] loop_all_failing [of es P fr s]
    by simp
qed

text \<open>
  Claim C3 as stated asks for a wait of about 10 ms on both streams. With a tick of
  1 ms, an accelerometer sample that arrives 5 ticks after the receive is called would
  be caught by a 10 ms wait, yet the iteration fails: the source passes 0.
\<close>

theorem complimentary_accel_not_waited_for:
  "xQueueReceive (Some 5) (FAILSAFE_TIMEOUT_MS div portTICK_RATE_MS bench_platform)
   \<and> updateAttitudeComplimentary bench_platform False (bench_env\<lparr>accelQueue := Some 5\<rparr>) bench_state
       = (- 1, bench_state\<lparr>alarm_attitude := ALARM_WARNING\<rparr>)"
  by (simp add: updateAttitudeComplimentary_def xQueueReceive_def FAILSAFE_TIMEOUT_MS_def
                bench_platform_def bench_env_def AlarmsSet_def)

text \<open>
  Claim C3, instances: a gyro sample one tick late, a successful iteration that clears
  a standing alarm, and two failing passes in a row.
\<close>

theorem complimentary_failsafe_witness:
  "updateAttitudeComplimentary bench_platform False (bench_env\<lparr>gyroQueue := Some 11\<rparr>) bench_state
     = (- 1, bench_state\<lparr>alarm_attitude := ALARM_WARNING\<rparr>)
   \<and> fst (updateAttitudeComplimentary bench_platform False bench_env
            (bench_state\<lparr>alarm_attitude := ALARM_WARNING\<rparr>)) = 0
   \<and> alarm_attitude (snd (updateAttitudeComplimentary bench_platform False bench_env
            (bench_state\<lparr>alarm_attitude := ALARM_WARNING\<rparr>))) = ALARM_CLEAR
   \<and> snd (AttitudeTask_loop bench_platform True
            [bench_env\<lparr>gyroQueue := None\<rparr>, bench_env\<lparr>accelQueue := None\<rparr>] bench_state)
       = bench_state\<lparr>alarm_attitude := ALARM_WARNING\<rparr>"
proof -
  have g11: "\<not> xQueueReceive (gyroQueue (bench_env\<lparr>gyroQueue := Some 11\<rparr>))
                 (FAILSAFE_TIMEOUT_MS div portTICK_RATE_MS bench_platform)"
    by (simp add: xQueueReceive_def FAILSAFE_TIMEOUT_MS_def bench_platform_def)
  have ok: "xQueueReceive (gyroQueue bench_env) (FAILSAFE_TIMEOUT_MS div portTICK_RATE_MS bench_platform)
            \<and> accelQueue bench_env = Some 0"
    by (simp add: xQueueReceive_def bench_env_def)
  have bad: "\<forall>e \<in> set [bench_env\<lparr>gyroQueue := None\<rparr>, bench_env\<lparr>accelQueue := None\<rparr>].
               \<not> (xQueueReceive (gyroQueue e) (FAILSAFE_TIMEOUT_MS div portTICK_RATE_MS bench_platform)
                  \<and> accelQueue e = Some 0)"
    by (simp add: xQueueReceive_def)
  show ?thesis
    using complimentary_failsafe [of bench_platform False "bench_env\<lparr>gyroQueue := Some 11\<rparr>" bench_state "[]"]
          complimentary_failsafe [of bench_platform False bench_env "bench_state\<lparr>alarm_attitude := ALARM_WARNING\<rparr>" "[]"]
          complimentary_failsafe [of bench_platform True bench_env bench_state
             "[bench_env\<lparr>gyroQueue := None\<rparr>, bench_env\<lparr>accelQueue := None\<rparr>]"]
          g11 ok bad
    by (metis prod.collapse list.distinct(1))
qed

subsection \<open>The magnetometer branch of the complementary filter\<close>

lemma magnetic_error_example:
  "magnetic_error (Fin 1, Fin 0, Fin 0, Fin 0) (Fin 0, Fin 1, Fin 0) (Fin 1, Fin 0, Fin 0)
     = (Fin 0, Fin 0, Fin (- 1))"
  by (simp add: magnetic_error_def rot_mult_def Quaternion2R_def CrossProduct_def)

text \<open>
  Claim C1 asks for the magnetic correction exactly when the magnetometer sample is
  fresh, and a zero magnetic error otherwise. The source tests the receive with
  \<open>!= pdTRUE\<close> (line 296): in an iteration that gets its gyro and accelerometer
  samples, the magnetic error is zero when the magnetometer sample is fresh and is the
  computed cross product when it is not.
\<close>

theorem complimentary_mag_gate_inverted:
  assumes "xQueueReceive (gyroQueue e) (FAILSAFE_TIMEOUT_MS div portTICK_RATE_MS P)"
      and "xQueueReceive (accelQueue e) 0"
  shows "mag_err (snd (updateAttitudeComplimentary P fr e s)) =
           (if xQueueReceive (magQueue e) 0
            then (Fin 0, Fin 0, Fin 0)
            else magnetic_error (att_q (AttitudeActual s)) (Magnetometer e) (HomeLocation_Be e))"
  using assms complimentary_mag_err [of e P fr s] by (simp add: xQueueReceive_zero)

text \<open>
  Claim C1, instance: attitude identity, reference field along x, measured field along
  y. With a fresh sample the error is zero; without one it is \<open>(0, 0, -1)\<close>.
\<close>

theorem complimentary_mag_gate_inverted_witness:
  "mag_err (snd (updateAttitudeComplimentary bench_platform False
                   (bench_env\<lparr>Magnetometer := (Fin 0, Fin 1, Fin 0)\<rparr>) bench_state)) = (Fin 0, Fin 0, Fin 0)
   \<and> mag_err (snd (updateAttitudeComplimentary bench_platform False
                   (bench_env\<lparr>Magnetometer := (Fin 0, Fin 1, Fin 0), magQueue := None\<rparr>) bench_state)) = (Fin 0, Fin 0, Fin (- 1))"
proof -
  have a: "xQueueReceive (gyroQueue (bench_env\<lparr>Magnetometer := (Fin 0, Fin 1, Fin 0)\<rparr>))
             (FAILSAFE_TIMEOUT_MS div portTICK_RATE_MS bench_platform)"
          "xQueueReceive (accelQueue (bench_env\<lparr>Magnetometer := (Fin 0, Fin 1, Fin 0)\<rparr>)) 0"
          "xQueueReceive (magQueue (bench_env\<lparr>Magnetometer := (Fin 0, Fin 1, Fin 0)\<rparr>)) 0"
    by (simp_all add: xQueueReceive_def bench_env_def)
  have b: "xQueueReceive (gyroQueue (bench_env\<lparr>Magnetometer := (Fin 0, Fin 1, Fin 0), magQueue := None\<rparr>))
             (FAILSAFE_TIMEOUT_MS div portTICK_RATE_MS bench_platform)"
          "xQueueReceive (accelQueue (bench_env\<lparr>Magnetometer := (Fin 0, Fin 1, Fin 0), magQueue := None\<rparr>)) 0"
          "\<not> xQueueReceive (magQueue (bench_env\<lparr>Magnetometer := (Fin 0, Fin 1, Fin 0), magQueue := None\<rparr>)) 0"
    by (simp_all add: xQueueReceive_def bench_env_def)
  have c: "magnetic_error (att_q (AttitudeActual bench_state))
             (Magnetometer (bench_env\<lparr>Magnetometer := (Fin 0, Fin 1, Fin 0), magQueue := None\<rparr>))
             (HomeLocation_Be (bench_env\<lparr>Magnetometer := (Fin 0, Fin 1, Fin 0), magQueue := None\<rparr>)) = (Fin 0, Fin 0, Fin (- 1))"
    by (simp add: bench_state_def bench_env_def magnetic_error_example)
  show ?thesis
    using complimentary_mag_gate_inverted [OF a(1) a(2), of False bench_state]
          complimentary_mag_gate_inverted [OF b(1) b(2), of False bench_state]
          a(3) b(3) c
    by simp
qed

subsection \<open>The estimator the task loop calls\<close>

lemma loop_log: "fst (AttitudeTask_loop P fr es s) = replicate (length es) COMPLIMENTARY"
  by (induction es arbitrary: fr s) (simp_all add: AttitudeTask_loop_Cons)

lemma loop_ins_frame:
  "inited (snd (AttitudeTask_loop P fr es s)) = inited s
   \<and> ins_last_time (snd (AttitudeTask_loop P fr es s)) = ins_last_time s
   \<and> Nav (snd (AttitudeTask_loop P fr es s)) = Nav s
   \<and> ins_calls (snd (AttitudeTask_loop P fr es s)) = ins_calls s
   \<and> PositionActual (snd (AttitudeTask_loop P fr es s)) = PositionActual s
   \<and> VelocityActual (snd (AttitudeTask_loop P fr es s)) = VelocityActual s"
  by (induction es arbitrary: fr s) (simp_all add: AttitudeTask_loop_Cons complimentary_ins_frame)

text \<open>
  Claim C10. Every pass of the task loop calls the complementary filter: the log of a
  run names no other estimator, a pass is the call of \<open>updateAttitudeComplimentary\<close>
  followed by the remaining passes with \<open>first_run\<close> false, and what only the INS/GPS
  estimator writes (its statics, \<open>Nav\<close>, the calls into the INS library) is the same
  after the run as before.
\<close>

theorem task_loop_runs_complimentary_only:
  "fst (AttitudeTask_loop P first_run es s) = replicate (length es) COMPLIMENTARY
   \<and> INSGPS \<notin> set (fst (AttitudeTask_loop P first_run es s))
   \<and> AttitudeTask_loop P first_run (e # es) s =
       (COMPLIMENTARY # fst (AttitudeTask_loop P False es (snd (updateAttitudeComplimentary P first_run e s))),
        snd (AttitudeTask_loop P False es (snd (updateAttitudeComplimentary P first_run e s))))
   \<and> inited (snd (AttitudeTask_loop P first_run es s)) = inited s
   \<and> ins_last_time (snd (AttitudeTask_loop P first_run es s)) = ins_last_time s
   \<and> Nav (snd (AttitudeTask_loop P first_run es s)) = Nav s
   \<and> ins_calls (snd (AttitudeTask_loop P first_run es s)) = ins_calls s"
  using loop_log [of P first_run es s] loop_ins_frame [of P first_run es s]
        AttitudeTask_loop_Cons [of P first_run e es s]
  by simp

subsection \<open>Facts about the INS/GPS estimator\<close>

lemma correction_masks_append:
  "correction_masks (xs @ ys) = correction_masks xs @ correction_masks ys"
  by (induction xs rule: correction_masks.induct) simp_all


lemma bias_guard_calls:
  "ins_calls (bias_guard s) =
     ins_calls s @ (if \<bar>fst (gyro_bias (Nav s))\<bar> > bias_limit
                       \<or> \<bar>fst (snd (gyro_bias (Nav s)))\<bar> > bias_limit
                       \<or> \<bar>snd (snd (gyro_bias (Nav s)))\<bar> > bias_limit
                    then [CALL_INSSetGyroBias (Fin 0, Fin 0, Fin 0)] else [])"
  by (simp add: bias_guard_def INSSetGyroBias_def split: prod.splits)

lemma bias_guard_Nav:
  "gyro_bias (Nav (bias_guard s)) =
     (if \<bar>fst (gyro_bias (Nav s))\<bar> > bias_limit
         \<or> \<bar>fst (snd (gyro_bias (Nav s)))\<bar> > bias_limit
         \<or> \<bar>snd (snd (gyro_bias (Nav s)))\<bar> > bias_limit
      then (Fin 0, Fin 0, Fin 0) else gyro_bias (Nav s))"
  by (simp add: bias_guard_def INSSetGyroBias_def split: prod.splits)

lemma ins_update_masks:
  "correction_masks (ins_calls (ins_update P e m b g s)) =
     correction_masks (ins_calls s) @ [sensor_mask P m b g]"
  by (simp add: ins_update_def Let_def bias_guard_calls INSStatePrediction_def
        INSCovariancePrediction_def INSCorrection_def correction_masks_append
      split: prod.splits)


lemma ins_update_bias:
  "gyro_bias (Nav (ins_update P e m b g s)) =
     (if \<bar>fst (gyro_bias (Nav_corrected e))\<bar> > bias_limit
         \<or> \<bar>fst (snd (gyro_bias (Nav_corrected e)))\<bar> > bias_limit
         \<or> \<bar>snd (snd (gyro_bias (Nav_corrected e)))\<bar> > bias_limit
      then (Fin 0, Fin 0, Fin 0) else gyro_bias (Nav_corrected e))"
  by (simp add: ins_update_def Let_def bias_guard_Nav INSStatePrediction_def
        INSCovariancePrediction_def INSCorrection_def
      split: prod.splits)

lemma ins_update_last_call:
  "last (ins_calls (ins_update P e m b g s)) =
     (if \<bar>fst (gyro_bias (Nav_corrected e))\<bar> > bias_limit
         \<or> \<bar>fst (snd (gyro_bias (Nav_corrected e)))\<bar> > bias_limit
         \<or> \<bar>snd (snd (gyro_bias (Nav_corrected e)))\<bar> > bias_limit
      then CALL_INSSetGyroBias (Fin 0, Fin 0, Fin 0)
      else CALL_INSCorrection (Magnetometer e)
             (if g then gps_NED P e else (Fin 0, Fin 0, Fin 0))
             (if g then gps_velocity e else (Fin 0, Fin 0, Fin 0))
             (BaroAltitude e) (sensor_mask P m b g))"
  by (simp add: ins_update_def Let_def bias_guard_calls INSStatePrediction_def
        INSCovariancePrediction_def INSCorrection_def
      split: prod.splits)

lemma insgps_running:
  "inited s \<Longrightarrow> \<not> first_run
   \<Longrightarrow> xQueueReceive (gyroQueue e) (10 div portTICK_RATE_MS P)
   \<Longrightarrow> xQueueReceive (accelQueue e) (10 div portTICK_RATE_MS P)
   \<Longrightarrow> updateAttitudeINSGPS P first_run e s =
        (0, ins_update P e (magQueue e = Some 0) (baroQueue e = Some 0)
                (stack_gps_updated e \<or> gpsQueue e = Some 0) s)"
  by (simp add: updateAttitudeINSGPS_def Let_def mag_updated_flag_def baro_updated_flag_def
        gps_updated_flag_def xQueueReceive_zero)

lemma inited_False_same: "\<not> inited s \<Longrightarrow> s\<lparr>inited := False\<rparr> = s"
  by (cases s) simp

lemma insgps_starting:
  assumes "\<not> inited s \<or> first_run"
      and "xQueueReceive (gyroQueue e) (10 div portTICK_RATE_MS P)"
      and "xQueueReceive (accelQueue e) (10 div portTICK_RATE_MS P)"
  shows "updateAttitudeINSGPS P first_run e s =
        (if (stack_mag_updated e \<or> magQueue e = Some 0)
            \<and> (stack_baro_updated e \<or> baroQueue e = Some 0)
            \<and> (stack_gps_updated e \<or> gpsQueue e = Some 0)
         then (0, ins_initialise P e (s\<lparr>inited := False\<rparr>))
         else (- 1, s\<lparr>inited := False\<rparr>))"
proof -
  have s0: "(if first_run then s\<lparr>inited := False\<rparr> else s) = s\<lparr>inited := False\<rparr>"
    using assms(1) by (cases first_run) (simp_all add: inited_False_same)
  show ?thesis
    unfolding updateAttitudeINSGPS_def s0 Let_def
    using assms(2,3)
    by (simp add: mag_updated_flag_def baro_updated_flag_def gps_updated_flag_def xQueueReceive_zero)
qed


lemma ins_initialise_inited: "inited (ins_initialise P e s)"
  by (simp add: ins_initialise_def Let_def INSGPSInit_def INSSetState_def INSSetGyroBias_def
        INSResetP_def)

subsection \<open>The sensor mask\<close>

text \<open>
  Claim C4 asks that a fresh GPS sample adds the horizontal and vertical terms to a
  mask that holds the magnetometer and the barometer when they are fresh. The source
  assigns the mask (\<open>sensors = HORIZ_SENSORS | VERT_SENSORS\<close>, line 536) where the
  two lines before it use \<open>|=\<close>: in an update step with a fresh GPS sample the mask
  handed to \<open>INSCorrection\<close> is the horizontal and vertical terms alone, whatever the
  magnetometer and the barometer delivered.
\<close>

theorem gps_overwrites_sensor_mask:
  assumes "inited s" and "\<not> first_run"
      and "xQueueReceive (gyroQueue e) (10 div portTICK_RATE_MS P)"
      and "xQueueReceive (accelQueue e) (10 div portTICK_RATE_MS P)"
      and "xQueueReceive (gpsQueue e) 0"
  shows "correction_masks (ins_calls (snd (updateAttitudeINSGPS P first_run e s))) =
           correction_masks (ins_calls s) @ [HORIZ_SENSORS P OR VERT_SENSORS P]"
  using assms
  by (simp add: insgps_running ins_update_masks sensor_mask_def xQueueReceive_zero)

text \<open>
  Claim C4, instance: all three optional streams fresh. The mask is \<open>0x038\<close>; it has
  no bit of the magnetometer mask and no bit of the barometer mask.
\<close>

theorem gps_overwrites_sensor_mask_witness:
  "xQueueReceive (magQueue bench_env) 0 \<and> xQueueReceive (baroQueue bench_env) 0
   \<and> correction_masks (ins_calls (snd (updateAttitudeINSGPS bench_platform False bench_env
         (bench_state\<lparr>inited := True\<rparr>)))) = [0x038]
   \<and> 0x038 AND MAG_SENSORS bench_platform = 0
   \<and> 0x038 AND BARO_SENSOR bench_platform = 0"
proof -
  have a: "inited (bench_state\<lparr>inited := True\<rparr>)" "\<not> False"
          "xQueueReceive (gyroQueue bench_env) (10 div portTICK_RATE_MS bench_platform)"
          "xQueueReceive (accelQueue bench_env) (10 div portTICK_RATE_MS bench_platform)"
          "xQueueReceive (gpsQueue bench_env) 0"
          "xQueueReceive (magQueue bench_env) 0" "xQueueReceive (baroQueue bench_env) 0"
    by (simp_all add: xQueueReceive_def bench_env_def)
  have b: "HORIZ_SENSORS bench_platform OR VERT_SENSORS bench_platform = 0x038"
          "0x038 AND MAG_SENSORS bench_platform = 0"
          "0x038 AND BARO_SENSOR bench_platform = 0"
    by (simp_all add: bench_platform_def)
  show ?thesis
    using gps_overwrites_sensor_mask [OF a(1) a(2) a(3) a(4) a(5)] a(6) a(7) b
    by (simp add: bench_state_def)
qed

subsection \<open>The freshness flags\<close>

text \<open>
  Claim C7 asks that each flag is the outcome of this iteration's receive alone. In the
  source \<open>gps_updated\<close> is never given a value before it is or-ed with the receive,
  and \<open>mag_updated\<close> and \<open>baro_updated\<close> are given one only once the filter is
  initialised (lines 430 to 441). After the two mandatory receives, the estimator
  behaves as follows: the initialised filter updates with a GPS flag that is the
  variable's first contents or the receive; the filter that is not initialised decides
  on all three flags in that form.
\<close>

theorem insgps_flags_keep_stack_values:
  assumes "xQueueReceive (gyroQueue e) (10 div portTICK_RATE_MS P)"
      and "xQueueReceive (accelQueue e) (10 div portTICK_RATE_MS P)"
  shows "updateAttitudeINSGPS P first_run e s =
           (if inited s \<and> \<not> first_run
            then (0, ins_update P e (xQueueReceive (magQueue e) 0) (xQueueReceive (baroQueue e) 0)
                       (stack_gps_updated e \<or> xQueueReceive (gpsQueue e) 0) s)
            else if (stack_mag_updated e \<or> xQueueReceive (magQueue e) 0)
                    \<and> (stack_baro_updated e \<or> xQueueReceive (baroQueue e) 0)
                    \<and> (stack_gps_updated e \<or> xQueueReceive (gpsQueue e) 0)
            then (0, ins_initialise P e (s\<lparr>inited := False\<rparr>))
            else (- 1, s\<lparr>inited := False\<rparr>))"
proof (cases "inited s \<and> \<not> first_run")
  case True
  then show ?thesis using assms by (simp add: insgps_running xQueueReceive_zero)
next
  case False
  then have "\<not> inited s \<or> first_run" by simp
  from insgps_starting [OF this assms] False show ?thesis
    by (auto simp: xQueueReceive_zero)
qed

text \<open>
  Claim C7, instance: no GPS sample, and the variable \<open>gps_updated\<close> starts as true.
  The correction is run with the horizontal and vertical terms; with the variable
  starting as false it is run with the magnetometer and barometer terms.
\<close>

theorem insgps_flags_keep_stack_values_witness:
  "\<not> xQueueReceive (gpsQueue (bench_env\<lparr>gpsQueue := None, stack_gps_updated := True\<rparr>)) 0
   \<and> correction_masks (ins_calls (snd (updateAttitudeINSGPS bench_platform False
         (bench_env\<lparr>gpsQueue := None, stack_gps_updated := True\<rparr>)
         (bench_state\<lparr>inited := True\<rparr>)))) = [0x038]
   \<and> correction_masks (ins_calls (snd (updateAttitudeINSGPS bench_platform False
         (bench_env\<lparr>gpsQueue := None\<rparr>)
         (bench_state\<lparr>inited := True\<rparr>)))) = [0x3C0]"
proof -
  have a: "xQueueReceive (gyroQueue (bench_env\<lparr>gpsQueue := None, stack_gps_updated := True\<rparr>))
             (10 div portTICK_RATE_MS bench_platform)"
          "xQueueReceive (accelQueue (bench_env\<lparr>gpsQueue := None, stack_gps_updated := True\<rparr>))
             (10 div portTICK_RATE_MS bench_platform)"
    by (simp_all add: xQueueReceive_def bench_env_def)
  have b: "xQueueReceive (gyroQueue (bench_env\<lparr>gpsQueue := None\<rparr>))
             (10 div portTICK_RATE_MS bench_platform)"
          "xQueueReceive (accelQueue (bench_env\<lparr>gpsQueue := None\<rparr>))
             (10 div portTICK_RATE_MS bench_platform)"
    by (simp_all add: xQueueReceive_def bench_env_def)
  have c: "sensor_mask bench_platform True True True = 0x038"
          "sensor_mask bench_platform True True False = 0x3C0"
    by (simp_all add: sensor_mask_def bench_platform_def)
  show ?thesis
    using insgps_flags_keep_stack_values [OF a, of False "bench_state\<lparr>inited := True\<rparr>"]
          insgps_flags_keep_stack_values [OF b, of False "bench_state\<lparr>inited := True\<rparr>"]
          c
    by (simp add: ins_update_masks xQueueReceive_def bench_env_def bench_state_def)
qed

subsection \<open>Initialisation of the INS/GPS filter\<close>

text \<open>
  Claim C5 asks that the filter is not initialised in an iteration in which one of the
  five streams is not fresh. Before the filter is initialised, with gyro,
  accelerometer, barometer and GPS fresh, the estimator initialises it whenever the
  variable \<open>mag_updated\<close> starts as true, with or without a magnetometer sample:
  the initialisation then reads the magnetometer object as it stands.
\<close>

theorem insgps_initialises_on_stack_flag:
  assumes "\<not> inited s \<or> first_run"
      and "xQueueReceive (gyroQueue e) (10 div portTICK_RATE_MS P)"
      and "xQueueReceive (accelQueue e) (10 div portTICK_RATE_MS P)"
      and "stack_mag_updated e"
      and "xQueueReceive (baroQueue e) 0"
      and "xQueueReceive (gpsQueue e) 0"
  shows "updateAttitudeINSGPS P first_run e s = (0, ins_initialise P e (s\<lparr>inited := False\<rparr>))
         \<and> inited (snd (updateAttitudeINSGPS P first_run e s))"
  using assms by (simp add: insgps_starting xQueueReceive_zero ins_initialise_inited)

text \<open>
  Claim C5, instance: four streams fresh, no magnetometer sample, \<open>mag_updated\<close>
  starting as true. The filter is initialised and the four calls of the
  initialisation are made.
\<close>

theorem insgps_initialises_on_stack_flag_witness:
  "\<not> xQueueReceive (magQueue (bench_env\<lparr>magQueue := None, stack_mag_updated := True\<rparr>)) 0
   \<and> inited (snd (updateAttitudeINSGPS bench_platform True
                    (bench_env\<lparr>magQueue := None, stack_mag_updated := True\<rparr>) bench_state))
   \<and> ins_calls (snd (updateAttitudeINSGPS bench_platform True
                    (bench_env\<lparr>magQueue := None, stack_mag_updated := True\<rparr>) bench_state))
       = [CALL_INSGPSInit,
          CALL_INSSetState (Fin 0, Fin 0, Fin 0) (Fin 0, Fin 0, Fin 0)
            (Fin 1, Fin 0, Fin 0, Fin 0) (Fin 0, Fin 0, Fin 0) (Fin 0, Fin 0, Fin 0),
          CALL_INSSetGyroBias (Fin 0, Fin 0, Fin 0),
          CALL_INSResetP [Fin 25, Fin 25, Fin 25, Fin 5, Fin 5, Fin 5,
                          prior_1e_5, prior_1e_5, prior_1e_5, prior_1e_5, prior_1e_5,
                          prior_1e_5, prior_1e_5, prior_1e_4, prior_1e_4, prior_1e_4]]"
proof -
  have a: "\<not> inited bench_state \<or> True"
          "xQueueReceive (gyroQueue (bench_env\<lparr>magQueue := None, stack_mag_updated := True\<rparr>))
             (10 div portTICK_RATE_MS bench_platform)"
          "xQueueReceive (accelQueue (bench_env\<lparr>magQueue := None, stack_mag_updated := True\<rparr>))
             (10 div portTICK_RATE_MS bench_platform)"
          "stack_mag_updated (bench_env\<lparr>magQueue := None, stack_mag_updated := True\<rparr>)"
          "xQueueReceive (baroQueue (bench_env\<lparr>magQueue := None, stack_mag_updated := True\<rparr>)) 0"
          "xQueueReceive (gpsQueue (bench_env\<lparr>magQueue := None, stack_mag_updated := True\<rparr>)) 0"
    by (simp_all add: xQueueReceive_def bench_env_def)
  have b: "ins_calls (ins_initialise bench_platform
                       (bench_env\<lparr>magQueue := None, stack_mag_updated := True\<rparr>)
                       (bench_state\<lparr>inited := False\<rparr>))
           = [CALL_INSGPSInit,
          CALL_INSSetState (Fin 0, Fin 0, Fin 0) (Fin 0, Fin 0, Fin 0)
            (Fin 1, Fin 0, Fin 0, Fin 0) (Fin 0, Fin 0, Fin 0) (Fin 0, Fin 0, Fin 0),
          CALL_INSSetGyroBias (Fin 0, Fin 0, Fin 0),
          CALL_INSResetP [Fin 25, Fin 25, Fin 25, Fin 5, Fin 5, Fin 5,
                          prior_1e_5, prior_1e_5, prior_1e_5, prior_1e_5, prior_1e_5,
                          prior_1e_5, prior_1e_5, prior_1e_4, prior_1e_4, prior_1e_4]]"
    by (simp add: ins_initialise_def Let_def INSGPSInit_def INSSetState_def INSSetGyroBias_def
          INSResetP_def gps_velocity_def gps_NED_def bench_platform_def bench_env_def bench_state_def
          F_PI_def)
  show ?thesis
    using insgps_initialises_on_stack_flag [OF a] b
    by (simp add: xQueueReceive_def ins_initialise_inited)
qed

subsection \<open>The bias guard\<close>

lemma bias_resets_append: "bias_resets (xs @ ys) = bias_resets xs @ bias_resets ys"
  by (induction xs rule: bias_resets.induct) simp_all

lemma ins_update_resets:
  "bias_resets (ins_calls (ins_update P e m b g s)) =
     bias_resets (ins_calls s)
       @ (if \<bar>fst (gyro_bias (Nav_corrected e))\<bar> > bias_limit
             \<or> \<bar>fst (snd (gyro_bias (Nav_corrected e)))\<bar> > bias_limit
             \<or> \<bar>snd (snd (gyro_bias (Nav_corrected e)))\<bar> > bias_limit
          then [(Fin 0, Fin 0, Fin 0)] else [])"
  by (simp add: ins_update_def Let_def bias_guard_calls INSStatePrediction_def
        INSCovariancePrediction_def INSCorrection_def bias_resets_append
      split: prod.splits)

lemma zero_within_limit: "\<not> bias_limit < \<bar>Fin 0\<bar>"
  by (simp add: bias_limit_def)

text \<open>
  Claim C6. The threshold is the constant \<open>0.1f\<close> of line 576, the single-precision
  number \<open>13421773 / 134217728\<close>, which is the one nearest to 0.1 and lies less than
  \<open>1 / 10 ^ 8\<close> above it. In every iteration that runs the correction: a
  component of the gyro bias that the correction leaves above the threshold in
  magnitude reads 0 afterwards; when any component is above it, all three read 0 and
  the estimator's last call is \<open>INSSetGyroBias\<close> with zeros, the one reset of the
  iteration; when none is, the bias is what the correction left and no reset is
  called; after the iteration no component is above the threshold.
\<close>

theorem insgps_bias_guard:
  assumes "inited s" and "\<not> first_run"
      and "xQueueReceive (gyroQueue e) (10 div portTICK_RATE_MS P)"
      and "xQueueReceive (accelQueue e) (10 div portTICK_RATE_MS P)"
  shows "bias_limit = Fin (13421773 / 134217728)
       \<and> ((1 / 10 :: real) < 13421773 / 134217728
            \<and> (13421773 / 134217728 :: real) < 1 / 10 + 1 / 10 ^ 8)
       \<and> (bias_limit < \<bar>fst (gyro_bias (Nav_corrected e))\<bar> \<longrightarrow>
            fst (gyro_bias (Nav (snd (updateAttitudeINSGPS P first_run e s)))) = Fin 0)
       \<and> (bias_limit < \<bar>fst (snd (gyro_bias (Nav_corrected e)))\<bar> \<longrightarrow>
            fst (snd (gyro_bias (Nav (snd (updateAttitudeINSGPS P first_run e s))))) = Fin 0)
       \<and> (bias_limit < \<bar>snd (snd (gyro_bias (Nav_corrected e)))\<bar> \<longrightarrow>
            snd (snd (gyro_bias (Nav (snd (updateAttitudeINSGPS P first_run e s))))) = Fin 0)
       \<and> (bias_limit < \<bar>fst (gyro_bias (Nav_corrected e))\<bar>
            \<or> bias_limit < \<bar>fst (snd (gyro_bias (Nav_corrected e)))\<bar>
            \<or> bias_limit < \<bar>snd (snd (gyro_bias (Nav_corrected e)))\<bar> \<longrightarrow>
            gyro_bias (Nav (snd (updateAttitudeINSGPS P first_run e s))) = (Fin 0, Fin 0, Fin 0)
            \<and> last (ins_calls (snd (updateAttitudeINSGPS P first_run e s)))
                = CALL_INSSetGyroBias (Fin 0, Fin 0, Fin 0)
            \<and> bias_resets (ins_calls (snd (updateAttitudeINSGPS P first_run e s)))
                = bias_resets (ins_calls s) @ [(Fin 0, Fin 0, Fin 0)])
       \<and> (\<not> (bias_limit < \<bar>fst (gyro_bias (Nav_corrected e))\<bar>
               \<or> bias_limit < \<bar>fst (snd (gyro_bias (Nav_corrected e)))\<bar>
               \<or> bias_limit < \<bar>snd (snd (gyro_bias (Nav_corrected e)))\<bar>) \<longrightarrow>
            gyro_bias (Nav (snd (updateAttitudeINSGPS P first_run e s))) = gyro_bias (Nav_corrected e)
            \<and> bias_resets (ins_calls (snd (updateAttitudeINSGPS P first_run e s)))
                = bias_resets (ins_calls s))
       \<and> \<not> bias_limit < \<bar>fst (gyro_bias (Nav (snd (updateAttitudeINSGPS P first_run e s))))\<bar>
       \<and> \<not> bias_limit < \<bar>fst (snd (gyro_bias (Nav (snd (updateAttitudeINSGPS P first_run e s)))))\<bar>
       \<and> \<not> bias_limit < \<bar>snd (snd (gyro_bias (Nav (snd (updateAttitudeINSGPS P first_run e s)))))\<bar>"
proof -
  have run: "snd (updateAttitudeINSGPS P first_run e s) =
               ins_update P e (magQueue e = Some 0) (baroQueue e = Some 0)
                 (stack_gps_updated e \<or> gpsQueue e = Some 0) s"
    using assms by (simp add: insgps_running)
  show ?thesis
    unfolding run
    using zero_within_limit
    by (auto simp: ins_update_bias ins_update_last_call ins_update_resets bias_limit_def)
qed

text \<open>
  Claim C6, instances: the correction leaves the bias \<open>(0.2, 0.05, 0)\<close>, which is
  reset, and the bias \<open>(0.1f, 0.05, 0)\<close>, which is kept.
\<close>

theorem insgps_bias_guard_witness:
  "gyro_bias (Nav (snd (updateAttitudeINSGPS bench_platform False
      (bench_env\<lparr>Nav_corrected := bench_nav\<lparr>gyro_bias := (Fin (1 / 5), Fin (1 / 20), Fin 0)\<rparr>\<rparr>)
      (bench_state\<lparr>inited := True\<rparr>)))) = (Fin 0, Fin 0, Fin 0)
   \<and> bias_resets (ins_calls (snd (updateAttitudeINSGPS bench_platform False
      (bench_env\<lparr>Nav_corrected := bench_nav\<lparr>gyro_bias := (Fin (1 / 5), Fin (1 / 20), Fin 0)\<rparr>\<rparr>)
      (bench_state\<lparr>inited := True\<rparr>)))) = [(Fin 0, Fin 0, Fin 0)]
   \<and> gyro_bias (Nav (snd (updateAttitudeINSGPS bench_platform False
      (bench_env\<lparr>Nav_corrected := bench_nav\<lparr>gyro_bias := (bias_limit, Fin (1 / 20), Fin 0)\<rparr>\<rparr>)
      (bench_state\<lparr>inited := True\<rparr>)))) = (bias_limit, Fin (1 / 20), Fin 0)
   \<and> bias_resets (ins_calls (snd (updateAttitudeINSGPS bench_platform False
      (bench_env\<lparr>Nav_corrected := bench_nav\<lparr>gyro_bias := (bias_limit, Fin (1 / 20), Fin 0)\<rparr>\<rparr>)
      (bench_state\<lparr>inited := True\<rparr>)))) = []"
proof -
  let ?e1 = "bench_env\<lparr>Nav_corrected := bench_nav\<lparr>gyro_bias := (Fin (1 / 5), Fin (1 / 20), Fin 0)\<rparr>\<rparr>"
  let ?e2 = "bench_env\<lparr>Nav_corrected := bench_nav\<lparr>gyro_bias := (bias_limit, Fin (1 / 20), Fin 0)\<rparr>\<rparr>"
  let ?s = "bench_state\<lparr>inited := True\<rparr>"
  have a1: "inited ?s" "\<not> False"
      "xQueueReceive (gyroQueue ?e1) (10 div portTICK_RATE_MS bench_platform)"
      "xQueueReceive (accelQueue ?e1) (10 div portTICK_RATE_MS bench_platform)"
    by (simp_all add: xQueueReceive_def bench_env_def)
  have a2: "inited ?s" "\<not> False"
      "xQueueReceive (gyroQueue ?e2) (10 div portTICK_RATE_MS bench_platform)"
      "xQueueReceive (accelQueue ?e2) (10 div portTICK_RATE_MS bench_platform)"
    by (simp_all add: xQueueReceive_def bench_env_def)
  have b1: "gyro_bias (Nav_corrected ?e1) = (Fin (1 / 5), Fin (1 / 20), Fin 0)"
    by simp
  have b2: "gyro_bias (Nav_corrected ?e2) = (bias_limit, Fin (1 / 20), Fin 0)"
    by simp
  have c1: "bias_limit < \<bar>Fin (1 / 5)\<bar>"
    by (simp add: bias_limit_def)
  have c2: "\<not> (bias_limit < \<bar>bias_limit\<bar> \<or> bias_limit < \<bar>Fin (1 / 20)\<bar> \<or> bias_limit < \<bar>Fin 0\<bar>)"
    by (simp add: bias_limit_def)
  have d: "bias_resets (ins_calls ?s) = []"
    by (simp add: bench_state_def)
  have w1: "gyro_bias (Nav (snd (updateAttitudeINSGPS bench_platform False ?e1 ?s))) = (Fin 0, Fin 0, Fin 0)
            \<and> bias_resets (ins_calls (snd (updateAttitudeINSGPS bench_platform False ?e1 ?s)))
                = [(Fin 0, Fin 0, Fin 0)]"
    using insgps_bias_guard [OF a1] c1 unfolding b1 d by simp
  have w2: "gyro_bias (Nav (snd (updateAttitudeINSGPS bench_platform False ?e2 ?s)))
              = (bias_limit, Fin (1 / 20), Fin 0)
            \<and> bias_resets (ins_calls (snd (updateAttitudeINSGPS bench_platform False ?e2 ?s))) = []"
    using insgps_bias_guard [OF a2] c2 unfolding b2 d by simp
  show ?thesis using w1 w2 by simp
qed


subsection \<open>The time step\<close>

lemma elapsed_seconds: "float_of_u32 w / Fin 1000000 = Fin (real (unat w) / 1000000)"
  by (simp add: float_of_u32_def)



lemma complimentary_published_q:
  "xQueueReceive (gyroQueue e) (FAILSAFE_TIMEOUT_MS div portTICK_RATE_MS P) \<Longrightarrow> accelQueue e = Some 0
   \<Longrightarrow> att_q (AttitudeActual (snd (updateAttitudeComplimentary P fr e s))) =
        snd (integrate_quaternion (att_q (AttitudeActual s))
               (corrected_rates (Gyros e)
                  (snd (gravity_error (att_q (AttitudeActual s)) (Accels e)))
                  (mag_err (snd (updateAttitudeComplimentary P fr e s)))
                  (accelKp (snd (updateAttitudeComplimentary P fr e s)))
                  (Fin (real (unat (PIOS_DELAY_DiffuS e)) / 1000000)))
               (Fin (real (unat (PIOS_DELAY_DiffuS e)) / 1000000)))"
  by (simp add: updateAttitudeComplimentary_def xQueueReceive_zero Let_def AlarmsClear_def
        select_gains_frame elapsed_seconds split: prod.splits)










lemma complimentary_qmag:
  "xQueueReceive (gyroQueue e) (FAILSAFE_TIMEOUT_MS div portTICK_RATE_MS P) \<Longrightarrow> accelQueue e = Some 0
   \<Longrightarrow> qmag (snd (updateAttitudeComplimentary P fr e s)) =
        fst (integrate_quaternion (att_q (AttitudeActual s))
               (corrected_rates (Gyros e)
                  (snd (gravity_error (att_q (AttitudeActual s)) (Accels e)))
                  (mag_err (snd (updateAttitudeComplimentary P fr e s)))
                  (accelKp (snd (updateAttitudeComplimentary P fr e s)))
                  (Fin (real (unat (PIOS_DELAY_DiffuS e)) / 1000000)))
               (Fin (real (unat (PIOS_DELAY_DiffuS e)) / 1000000)))"
  by (simp add: updateAttitudeComplimentary_def xQueueReceive_zero Let_def AlarmsClear_def
        select_gains_frame elapsed_seconds split: prod.splits)

text \<open>
  A division by a zero time step or by a zero accelerometer magnitude does not give a
  finite number. The time step of the quaternion then is NaN in every component, the
  norm is NaN, and the test of line 371 publishes the identity.
\<close>

lemma add_NaN [simp]: "x + NaN = NaN"
  by (cases x) simp_all

lemma mult_NaN [simp]: "x * NaN = NaN"
  by (cases x) simp_all

lemma divide_by_NaN [simp]: "x / NaN = NaN"
  by (cases x) simp_all

lemma minus_NaN [simp]: "x - NaN = NaN" "NaN - x = NaN"
  by (simp_all add: minus_float_def)



lemma uminus_not_finite: "\<not> is_finite x \<Longrightarrow> \<not> is_finite (- x)"
  by (cases x) simp_all




lemma NaN_scaled: "NaN * F_PI / Fin 180 / Fin 2 = NaN"
  by (simp add: F_PI_def)

lemma renormalise_NaN: "renormalise (NaN, NaN, NaN, NaN) = (NaN, (Fin 1, Fin 0, Fin 0, Fin 0))"
  by (simp add: renormalise_def Let_def float_ne_def short_norm_def)






lemma zero_over_zero:
  "(Fin 0 * x - y * Fin 0) / Fin 0 = NaN" "(x * Fin 0 - Fin 0 * y) / Fin 0 = NaN"
  by (cases x; cases y; simp)+

lemma gravity_error_zero_accel:
  "gravity_error q (Fin 0, Fin 0, Fin 0) = (Fin 0, (NaN, NaN, NaN))"
  by (cases q) (simp add: gravity_error_def CrossProduct_def Let_def zero_over_zero)

lemma corrected_rates_NaN: "corrected_rates g (NaN, NaN, NaN) me Kp dT = (NaN, NaN, NaN)"
  by (simp add: corrected_rates_def split: prod.splits)

lemma integrate_NaN_rates:
  "integrate_quaternion q (NaN, NaN, NaN) dT = (NaN, (Fin 1, Fin 0, Fin 0, Fin 0))"
  by (cases q) (simp add: integrate_quaternion_def quaternion_step_def Let_def NaN_scaled
                   renormalise_NaN)

lemma complimentary_bias:
  "xQueueReceive (gyroQueue e) (FAILSAFE_TIMEOUT_MS div portTICK_RATE_MS P) \<Longrightarrow> accelQueue e = Some 0
   \<Longrightarrow> GyrosBias (snd (updateAttitudeComplimentary P fr e s)) =
        (case GyrosBias s of (bx, by, bz) \<Rightarrow>
         case snd (gravity_error (att_q (AttitudeActual s)) (Accels e)) of (ae0, ae1, ae2) \<Rightarrow>
         case mag_err (snd (updateAttitudeComplimentary P fr e s)) of (me0, me1, me2) \<Rightarrow>
           (bx + ae0 * accelKi (snd (updateAttitudeComplimentary P fr e s)),
            by + ae1 * accelKi (snd (updateAttitudeComplimentary P fr e s)),
            bz + me2 * magKi))"
  by (simp add: updateAttitudeComplimentary_def xQueueReceive_zero Let_def AlarmsClear_def
        select_gains_frame split: prod.splits)

lemma complimentary_zero_accel:
  assumes "xQueueReceive (gyroQueue e) (FAILSAFE_TIMEOUT_MS div portTICK_RATE_MS P)"
      and "accelQueue e = Some 0"
      and "Accels e = (Fin 0, Fin 0, Fin 0)"
  shows "att_q (AttitudeActual (snd (updateAttitudeComplimentary P fr e s))) = (Fin 1, Fin 0, Fin 0, Fin 0)
         \<and> qmag (snd (updateAttitudeComplimentary P fr e s)) = NaN
         \<and> fst (GyrosBias (snd (updateAttitudeComplimentary P fr e s))) = NaN
         \<and> fst (snd (GyrosBias (snd (updateAttitudeComplimentary P fr e s)))) = NaN"
  using complimentary_published_q [OF assms(1,2), of fr s] complimentary_qmag [OF assms(1,2), of fr s]
        complimentary_bias [OF assms(1,2), of fr s]
  by (simp add: assms(3) gravity_error_zero_accel corrected_rates_NaN integrate_NaN_rates
        split: prod.splits)





end
